theory Spec2Isabelle
  imports Complex_Main
begin

section \<open>Python strings\<close>

text \<open>
  A Python \<open>str\<close> is modelled as a \<open>string\<close> whose characters are code points
  below 256. \<open>str.strip()\<close> removes the white space of that range at both ends,
  \<open>str.lower()\<close> maps \<open>A-Z\<close> and the upper-case letters of Latin-1 to lower case.
\<close>

definition py_isspace :: "char \<Rightarrow> bool" where
  "py_isspace c =
     (let n = (of_char c :: nat)
      in (9 \<le> n \<and> n \<le> 13) \<or> (28 \<le> n \<and> n \<le> 32) \<or> n = 133 \<or> n = 160)"

definition py_strip :: "string \<Rightarrow> string" where
  "py_strip s = rev (dropWhile py_isspace (rev (dropWhile py_isspace s)))"

definition py_lower_char :: "char \<Rightarrow> char" where
  "py_lower_char c =
     (let n = (of_char c :: nat)
      in if (65 \<le> n \<and> n \<le> 90) \<or> (192 \<le> n \<and> n \<le> 222 \<and> n \<noteq> 215)
         then char_of (n + 32) else c)"

definition py_lower :: "string \<Rightarrow> string" where
  "py_lower s = map py_lower_char s"

section \<open>DataFrames\<close>

text \<open>
  A cell of a DataFrame is a string or a value that is not a string (NaN, None).
  A DataFrame is column oriented, as pandas is: the list of its columns in order, each
  with its values; the number of rows is the length of a column.
\<close>

datatype cell = S string | NA

type_synonym dataframe = "(string \<times> cell list) list"

definition df_columns :: "dataframe \<Rightarrow> string list" where
  "df_columns df = map fst df"

definition df_len :: "dataframe \<Rightarrow> nat" where
  "df_len df = (case df of [] \<Rightarrow> 0 | c # _ \<Rightarrow> length (snd c))"

definition df_empty :: "dataframe \<Rightarrow> bool" where
  \<comment> \<open>\<open>df.empty\<close>: an axis of length 0.\<close>
  "df_empty df = (df = [] \<or> df_len df = 0)"

definition has_cols :: "dataframe \<Rightarrow> string list \<Rightarrow> bool" where
  \<comment> \<open>\<open>all(col in df.columns for col in cs)\<close>\<close>
  "has_cols df cs = list_all (\<lambda>c. c \<in> set (df_columns df)) cs"

definition df_col :: "dataframe \<Rightarrow> string \<Rightarrow> cell list" where
  \<comment> \<open>\<open>df[c]\<close> where the caller has checked that the column exists.\<close>
  "df_col df c = (case map_of df c of Some xs \<Rightarrow> xs | None \<Rightarrow> [])"

definition add_missing_cols :: "dataframe \<Rightarrow> string list \<Rightarrow> dataframe" where
  \<comment> \<open>\<open>for col in cs: if col not in df.columns: df[col] = pd.Series(dtype='str')\<close>,
      on a frame with no rows. It mutates the frame it is given.\<close>
  "add_missing_cols df cs =
     df @ map (\<lambda>c. (c, [])) (filter (\<lambda>c. c \<notin> set (df_columns df)) (remdups cs))"

definition pair_mask :: "dataframe \<Rightarrow> string \<Rightarrow> string \<Rightarrow> string \<Rightarrow> string \<Rightarrow> bool list" where
  \<comment> \<open>\<open>(df[c1] == v1) & (df[c2] == v2)\<close>: the raw strings are compared.\<close>
  "pair_mask df c1 v1 c2 v2 =
     map (\<lambda>(a, b). a = S v1 \<and> b = S v2) (zip (df_col df c1) (df_col df c2))"

definition mask_any :: "bool list \<Rightarrow> bool" where
  "mask_any m = (True \<in> set m)"

definition masked :: "bool list \<Rightarrow> 'a list \<Rightarrow> 'a list" where
  "masked m xs = map snd (filter fst (zip m xs))"

definition loc_set :: "dataframe \<Rightarrow> bool list \<Rightarrow> string \<Rightarrow> cell \<Rightarrow> dataframe" where
  \<comment> \<open>\<open>df.loc[mask, c] = v\<close>, in place.\<close>
  "loc_set df m c v =
     map (\<lambda>(c', xs). if c' = c then (c', map (\<lambda>(b, x). if b then v else x) (zip m xs))
                      else (c', xs)) df"

definition drop_masked :: "dataframe \<Rightarrow> bool list \<Rightarrow> dataframe" where
  \<comment> \<open>\<open>df[~mask].reset_index(drop=True)\<close>: a new frame.\<close>
  "drop_masked df m = map (\<lambda>(c, xs). (c, masked (map Not m) xs)) df"

definition concat_row :: "dataframe \<Rightarrow> (string \<times> cell) list \<Rightarrow> dataframe" where
  \<comment> \<open>\<open>pd.concat([df, new_row], ignore_index=True)\<close> for a one-row frame: a new frame
      with the columns of both, NaN where a frame has no value.\<close>
  "concat_row df r =
     map (\<lambda>(c, xs). (c, xs @ [case map_of r c of Some v \<Rightarrow> v | None \<Rightarrow> NA])) df
     @ map (\<lambda>(c, v). (c, replicate (df_len df) NA @ [v]))
         (filter (\<lambda>(c, v). c \<notin> set (df_columns df)) r)"

definition REQUIRED_COLUMNS_VERIFICATION :: "string list" where
  "REQUIRED_COLUMNS_VERIFICATION = [''MonNomProduit'', ''Concurrent'', ''URLConcurrent'']"

definition REQUIRED_COLUMNS_PRODUCTS_URL :: "string list" where
  "REQUIRED_COLUMNS_PRODUCTS_URL = [''NomProduit'', ''CompetitorDomain'', ''URLConcurrent'']"

definition str_or_empty :: "string option \<Rightarrow> string" where
  \<comment> \<open>\<open>str(url or '')\<close> for a url that is None or a string\<close>
  "str_or_empty url = (case url of None \<Rightarrow> [] | Some u \<Rightarrow> u)"

section \<open>The local cache store\<close>

text \<open>
  The three operations take the DataFrame as a Python object reference (None, or a
  frame). A statement \<open>df[col] = ...\<close> or \<open>df.loc[mask, col] = ...\<close> changes the
  frame the caller passed; an assignment \<open>df = pd.concat(...)\<close> or
  \<open>df = df[~mask]...\<close> binds the parameter name to a new frame and leaves the
  caller's frame as it was. A call therefore yields the returned boolean, the caller's
  frame after the call (\<open>passed_df\<close>), and the frame the parameter name is bound to
  when the function returns (\<open>local_df\<close>), which is dropped on return.
\<close>

record df_call =
  changed :: bool
  passed_df :: "dataframe option"
  local_df :: "dataframe option"

definition df_result :: "bool \<Rightarrow> dataframe option \<Rightarrow> dataframe option \<Rightarrow> df_call" where
  "df_result b p l = \<lparr>changed = b, passed_df = p, local_df = l\<rparr>"

definition add_to_manual_verification ::
  "string \<Rightarrow> string \<Rightarrow> dataframe option \<Rightarrow> string option \<Rightarrow> df_call" where
  "add_to_manual_verification product_name domain verification_df url =
     (case verification_df of
        None \<Rightarrow> df_result False None None
      | Some df0 \<Rightarrow>
          if \<not> has_cols df0 [''MonNomProduit'', ''Concurrent''] \<and> \<not> df_empty df0
          then df_result False (Some df0) (Some df0)
          else
            let df = (if has_cols df0 [''MonNomProduit'', ''Concurrent''] then df0
                      else add_missing_cols df0 REQUIRED_COLUMNS_VERIFICATION);
                mask = pair_mask df ''MonNomProduit'' product_name ''Concurrent'' domain
            in if \<not> mask_any mask
               then
                 let new_row = [(''MonNomProduit'', S product_name), (''Concurrent'', S domain),
                                (''URLConcurrent'', S (str_or_empty url))]
                 in df_result True (Some df) (Some (concat_row df new_row))
               else df_result False (Some df) (Some df))"

definition remove_from_manual_verification ::
  "string \<Rightarrow> string \<Rightarrow> dataframe option \<Rightarrow> df_call" where
  "remove_from_manual_verification product_name domain verification_df =
     (case verification_df of
        None \<Rightarrow> df_result False None None
      | Some df \<Rightarrow>
          if df_empty df then df_result False (Some df) (Some df)
          else if \<not> has_cols df [''MonNomProduit'', ''Concurrent'']
          then df_result False (Some df) (Some df)
          else
            let initial_len = df_len df;
                mask = pair_mask df ''MonNomProduit'' product_name ''Concurrent'' domain
            in if mask_any mask
               then
                 let df' = drop_masked df mask
                 in if df_len df' < initial_len
                    then df_result True (Some df) (Some df')
                    else df_result False (Some df) (Some df')
               else df_result False (Some df) (Some df))"

definition save_or_update_url ::
  "string \<Rightarrow> string \<Rightarrow> string option \<Rightarrow> dataframe option \<Rightarrow> df_call" where
  "save_or_update_url product_name domain url products_url_df =
     (case products_url_df of
        None \<Rightarrow> df_result False None None
      | Some df0 \<Rightarrow>
          if \<not> has_cols df0 [''NomProduit'', ''CompetitorDomain'', ''URLConcurrent'']
             \<and> \<not> df_empty df0
          then df_result False (Some df0) (Some df0)
          else
            let df = (if has_cols df0 [''NomProduit'', ''CompetitorDomain'', ''URLConcurrent'']
                      then df0 else add_missing_cols df0 REQUIRED_COLUMNS_PRODUCTS_URL);
                url_str = str_or_empty url;
                mask = pair_mask df ''NomProduit'' product_name ''CompetitorDomain'' domain
            in if mask_any mask
               then
                 let current_url = masked mask (df_col df ''URLConcurrent'')
                 in if take 1 current_url \<noteq> [S url_str]
                    then let df' = loc_set df mask ''URLConcurrent'' (S url_str)
                         in df_result True (Some df') (Some df')
                    else df_result False (Some df) (Some df)
               else
                 let new_row = [(''NomProduit'', S product_name), (''CompetitorDomain'', S domain),
                                (''URLConcurrent'', S url_str)]
                 in df_result True (Some df) (Some (concat_row df new_row)))"

subsection \<open>Two calls in a row\<close>

definition empty_products_url_df :: dataframe where
  \<comment> \<open>\<open>pd.DataFrame(columns=REQUIRED_COLUMNS_PRODUCTS_URL)\<close>\<close>
  "empty_products_url_df = map (\<lambda>c. (c, [])) REQUIRED_COLUMNS_PRODUCTS_URL"

definition empty_verification_df :: dataframe where
  "empty_verification_df = map (\<lambda>c. (c, [])) REQUIRED_COLUMNS_VERIFICATION"

definition upsert_twice :: "string \<Rightarrow> string \<Rightarrow> string option \<Rightarrow> dataframe option \<Rightarrow> bool \<times> bool" where
  \<comment> \<open>Two calls in a row on the frame the caller holds, as the Result Correlator makes
      them: what each call returns.\<close>
  "upsert_twice p d u df =
     (let r1 = save_or_update_url p d u df;
          r2 = save_or_update_url p d u (passed_df r1)
      in (changed r1, changed r2))"

section \<open>Python floats\<close>

text \<open>
  A Python \<open>float\<close> is an IEEE 754 double: a finite value (a rational), an infinity or
  NaN; the two zeros are identified. \<open>fl\<close> rounds a rational to the nearest double, ties
  to even, with 53 bits of precision, gradual underflow below \<open>2^-1022\<close> and overflow to
  an infinity when the rounded value reaches \<open>2^1024\<close> (\<open>2^53 = 9007199254740992\<close>
  units in the last place at exponent 1023). Each arithmetic operation is the exact operation followed
  by \<open>fl\<close>.
\<close>

datatype pyfloat = Fin rat | PInf | NInf | NaN

definition pow2 :: "int \<Rightarrow> rat" where
  "pow2 e = (if 0 \<le> e then 2 ^ nat e else 1 / 2 ^ nat (- e))"

definition ilog2_clamped :: "rat \<Rightarrow> int" where
  \<comment> \<open>The exponent of a positive \<open>x\<close> as a double: the greatest \<open>e\<close> from -1022 to
      1025 with \<open>2^e \<le> x\<close>, and -1022 when there is none (the subnormal range);
      found by binary search.\<close>
  "ilog2_clamped x =
     foldl (\<lambda>e w. if pow2 (e + w) \<le> x then e + w else e) (- 1022)
       [1024, 512, 256, 128, 64, 32, 16, 8, 4, 2, 1]"

definition round_half_even :: "rat \<Rightarrow> int" where
  "round_half_even x =
     (let f = \<lfloor>x\<rfloor>; d = x - of_int f
      in if d < 1 / 2 then f else if 1 / 2 < d then f + 1
         else if even f then f else f + 1)"

definition fl :: "rat \<Rightarrow> pyfloat" where
  "fl x =
     (if x = 0 then Fin 0
      else
        let e = ilog2_clamped \<bar>x\<bar>;
            ulp = pow2 (e - 52);
            m = round_half_even (x / ulp)
        in if 1023 < e \<or> (e = 1023 \<and> \<bar>m\<bar> = 9007199254740992)
           then (if 0 < x then PInf else NInf)
           else Fin (of_int m * ulp))"

fun fneg :: "pyfloat \<Rightarrow> pyfloat" where
  "fneg (Fin x) = Fin (- x)"
| "fneg PInf = NInf"
| "fneg NInf = PInf"
| "fneg NaN = NaN"

fun fsub :: "pyfloat \<Rightarrow> pyfloat \<Rightarrow> pyfloat" where
  "fsub NaN _ = NaN"
| "fsub _ NaN = NaN"
| "fsub (Fin x) (Fin y) = fl (x - y)"
| "fsub (Fin x) b = fneg b"
| "fsub PInf PInf = NaN"
| "fsub NInf NInf = NaN"
| "fsub a _ = a"

fun fsign_pos :: "pyfloat \<Rightarrow> bool" where
  \<comment> \<open>the value is greater than 0\<close>
  "fsign_pos (Fin x) = (0 < x)"
| "fsign_pos PInf = True"
| "fsign_pos _ = False"

fun fmul :: "pyfloat \<Rightarrow> pyfloat \<Rightarrow> pyfloat" where
  "fmul NaN _ = NaN"
| "fmul _ NaN = NaN"
| "fmul (Fin x) (Fin y) = fl (x * y)"
| "fmul (Fin x) b = (if x = 0 then NaN else if 0 < x then b else fneg b)"
| "fmul a (Fin y) = (if y = 0 then NaN else if 0 < y then a else fneg a)"
| "fmul a b = (if a = b then PInf else NInf)"

fun fdiv :: "pyfloat \<Rightarrow> pyfloat \<Rightarrow> pyfloat" where
  \<comment> \<open>\<open>a / b\<close>. Python raises ZeroDivisionError on a zero divisor; the only division of
      the program is guarded by \<open>comp_p > 0\<close>, and the model gives NaN there.\<close>
  "fdiv NaN _ = NaN"
| "fdiv _ NaN = NaN"
| "fdiv (Fin x) (Fin y) = (if y = 0 then NaN else fl (x / y))"
| "fdiv (Fin x) b = Fin 0"
| "fdiv a (Fin y) = (if 0 \<le> y then a else fneg a)"
| "fdiv a b = NaN"

fun py_round2 :: "pyfloat \<Rightarrow> pyfloat" where
  \<comment> \<open>\<open>round(x, 2)\<close>: the exact value is rounded to two decimals, ties to even, and
      the double nearest to that decimal is returned.\<close>
  "py_round2 (Fin x) = fl (of_int (round_half_even (x * 100)) / 100)"
| "py_round2 a = a"

fun fless :: "pyfloat \<Rightarrow> pyfloat \<Rightarrow> bool" where
  \<comment> \<open>\<open>a < b\<close>\<close>
  "fless NaN _ = False"
| "fless _ NaN = False"
| "fless (Fin x) (Fin y) = (x < y)"
| "fless NInf b = (b \<noteq> NInf)"
| "fless a PInf = (a \<noteq> PInf)"
| "fless a b = False"

text \<open>
  A price as the program handles it: None, a value that \<open>float()\<close> converts (a float,
  an int, a numeric string), given by the float it converts to, or a value on which
  \<open>float()\<close> raises ValueError or TypeError (a string such as \<open>'abc'\<close>, a list).
  A value on which \<open>float()\<close> raises another exception (OverflowError on an int
  beyond the range of a float) is not among them: the program handles prices that are
  floats or None.
\<close>

datatype pyval = PyNone | PyNum pyfloat | PyNonNumeric

fun py_float :: "pyval \<Rightarrow> pyfloat option" where
  \<comment> \<open>\<open>float(v)\<close>; None when it raises\<close>
  "py_float (PyNum f) = Some f"
| "py_float _ = None"

datatype diff = Num pyfloat | Txt string

definition calculate_price_difference :: "pyval \<Rightarrow> pyval \<Rightarrow> diff" where
  "calculate_price_difference my_price competitor_price =
     (if competitor_price \<noteq> PyNone \<and> my_price \<noteq> PyNone
      then
        (case py_float my_price of
           None \<Rightarrow> Txt ''Erreur Type''
         | Some my_p \<Rightarrow>
            (case py_float competitor_price of
               None \<Rightarrow> Txt ''Erreur Type''
             | Some comp_p \<Rightarrow>
                 if fsign_pos comp_p
                 then Num (py_round2 (fmul (fdiv (fsub my_p comp_p) comp_p) (Fin 100)))
                 else if comp_p = Fin 0 \<and> fsign_pos my_p then Num PInf
                 else if comp_p = Fin 0 \<and> my_p = Fin 0 then Num (Fin 0)
                 else Txt ''N/A''))
      else Txt ''N/A'')"

section \<open>Statuses, exceptions and task results\<close>

text \<open>
  A status is an integer (an HTTP status code) or a string. \<open>str(status) == '200'\<close>
  holds for the integer 200 and for the string \<open>'200'\<close>; \<open>str\<close> of an integer is a
  digit string, so it differs from every status text that has a letter in it.
\<close>

datatype status = Code int | Text string

fun str_is_200 :: "status \<Rightarrow> bool" where
  "str_is_200 (Code n) = (n = 200)"
| "str_is_200 (Text t) = (t = ''200'')"

fun str_is_text :: "status \<Rightarrow> string \<Rightarrow> bool" where
  \<comment> \<open>\<open>str(status) == t\<close> for a text \<open>t\<close> that is not a decimal numeral\<close>
  "str_is_text (Code n) t = False"
| "str_is_text (Text s) t = (s = t)"

text \<open>
  An exception is known by what the handlers of the program tell apart: an HTTP error
  with the status code of its response, another \<open>requests\<close> exception, or any other
  exception with the name of its type.
\<close>

datatype exc = HTTPError int | RequestException | OtherException string

text \<open>
  The result dictionary of a task. A name or a domain is a \<open>cell\<close>: the pool hands the
  task whatever the catalog holds, a string or not. The URL is None or a string.
\<close>

record result =
  r_status :: status
  r_name :: "string option"
  r_price :: pyval
  r_url :: "string option"
  r_domain :: cell
  r_my_product_name :: cell

section \<open>The URL resolver and the pool task\<close>

fun truthy :: "cell option \<Rightarrow> bool" where
  \<comment> \<open>Python truth of a URL value: None and the empty string are false, NaN is true\<close>
  "truthy None = False"
| "truthy (Some (S u)) = (u \<noteq> [])"
| "truthy (Some NA) = True"

fun valid_url :: "cell option \<Rightarrow> bool" where
  \<comment> \<open>\<open>u and isinstance(u, str) and u.strip()\<close>\<close>
  "valid_url (Some (S u)) = (u \<noteq> [] \<and> py_strip u \<noteq> [])"
| "valid_url _ = False"

datatype lookup = NotIndexed | Indexed "cell option"

definition index_lookup :: "dataframe option \<Rightarrow> string \<Rightarrow> exc + lookup" where
  \<comment> \<open>The lookup both cache blocks make:
      \<open>not df.empty and "IndexUnique" in df.columns and key in df["IndexUnique"].values\<close>,
      then \<open>s = df.loc[df["IndexUnique"] == key, "URLConcurrent"]\<close> and
      \<open>s.iloc[0] if not s.empty else None\<close>. \<open>None.empty\<close> raises AttributeError, a
      missing URL column raises KeyError.\<close>
  "index_lookup df key =
     (case df of
        None \<Rightarrow> Inl (OtherException ''AttributeError'')
      | Some d \<Rightarrow>
          if \<not> df_empty d \<and> ''IndexUnique'' \<in> set (df_columns d)
             \<and> S key \<in> set (df_col d ''IndexUnique'')
          then
            (case map_of d ''URLConcurrent'' of
               None \<Rightarrow> Inl (OtherException ''KeyError'')
             | Some urls \<Rightarrow>
                 Inr (Indexed
                   (case masked (map (\<lambda>v. v = S key) (df_col d ''IndexUnique'')) urls of
                      [] \<Rightarrow> None
                    | u # _ \<Rightarrow> Some u)))
          else Inr NotIndexed)"

text \<open>
  The local variables of the task: \<open>held_url\<close> is \<open>competitor_url\<close>, \<open>t_status\<close> is
  \<open>result['status']\<close>; \<open>serper_called\<close> records whether the search collaborator was
  called.
\<close>

record task_state =
  held_url :: "cell option"
  found_in_verification :: bool
  verification_has_no_url :: bool
  t_status :: status
  serper_called :: bool

definition init_state :: task_state where
  "init_state = \<lparr>held_url = None, found_in_verification = False,
     verification_has_no_url = False, t_status = Text ''Init'', serper_called = False\<rparr>"

definition check_verification :: "string \<Rightarrow> dataframe option \<Rightarrow> task_state \<Rightarrow> exc + task_state" where
  \<comment> \<open>The first statement of the try block: the manual-verification queue.\<close>
  "check_verification index_unique verification_df s =
     (case index_lookup verification_df index_unique of
        Inl e \<Rightarrow> Inl e
      | Inr NotIndexed \<Rightarrow> Inr s
      | Inr (Indexed u) \<Rightarrow>
          if valid_url u
          then Inr (s\<lparr>found_in_verification := True, held_url := u,
                     t_status := Text ''URL From Verification''\<rparr>)
          else Inr (s\<lparr>found_in_verification := True, held_url := u,
                     t_status := Text ''Verification No URL'',
                     verification_has_no_url := True\<rparr>))"

definition check_products_url :: "string \<Rightarrow> dataframe option \<Rightarrow> task_state \<Rightarrow> exc + task_state" where
  \<comment> \<open>The second statement of the try block: the confirmed-URL cache, read only when
      no URL is held and the pair is not parked.\<close>
  "check_products_url index_unique products_url_df s =
     (if \<not> truthy (held_url s) \<and> \<not> verification_has_no_url s
      then
        (case index_lookup products_url_df index_unique of
           Inl e \<Rightarrow> Inl e
         | Inr NotIndexed \<Rightarrow> Inr s
         | Inr (Indexed temp_url) \<Rightarrow>
             if valid_url temp_url
             then Inr (s\<lparr>held_url := temp_url, t_status := Text ''URL From Cache''\<rparr>)
             else Inr s)
      else Inr s)"

definition local_lookup :: "string \<Rightarrow> dataframe option \<Rightarrow> dataframe option \<Rightarrow> task_state" where
  \<comment> \<open>Step 1, with its handler: an exception leaves the variables as they were when it
      was raised and sets the status to LocalLookupError. In the first statement the
      KeyError of the missing URL column comes after \<open>found_in_verification = True\<close>,
      the AttributeError of \<open>None.empty\<close> before it.\<close>
  "local_lookup index_unique verification_df products_url_df =
     (case check_verification index_unique verification_df init_state of
        Inl e \<Rightarrow>
          init_state\<lparr>found_in_verification := (e = OtherException ''KeyError''),
                       t_status := Text ''LocalLookupError''\<rparr>
      | Inr s1 \<Rightarrow>
          (case check_products_url index_unique products_url_df s1 of
             Inl e \<Rightarrow> s1\<lparr>t_status := Text ''LocalLookupError''\<rparr>
           | Inr s2 \<Rightarrow> s2))"

definition serper_step ::
  "(string \<Rightarrow> string \<Rightarrow> exc + cell option) \<Rightarrow> string \<Rightarrow> string \<Rightarrow> task_state \<Rightarrow> task_state" where
  \<comment> \<open>Step 2: the search collaborator, called when no URL is held and the pair is not
      parked.\<close>
  "serper_step search_google_serper my_product_name domain s =
     (if \<not> truthy (held_url s) \<and> \<not> verification_has_no_url s
      then
        (case search_google_serper my_product_name domain of
           Inl e \<Rightarrow> s\<lparr>t_status := Text ''Serper API Error'', serper_called := True\<rparr>
         | Inr serper_url \<Rightarrow>
             if valid_url serper_url
             then s\<lparr>held_url := serper_url, t_status := Text ''URL From Serper'',
                    serper_called := True\<rparr>
             else s\<lparr>t_status := Text ''Serper Not Found'', serper_called := True\<rparr>)
      else s)"

definition index_key :: "string \<Rightarrow> string \<Rightarrow> string" where
  \<comment> \<open>\<open>f"{name.strip().lower()}__{domain.strip().lower()}"\<close>\<close>
  "index_key my_product_name domain =
     py_lower (py_strip my_product_name) @ ''__'' @ py_lower (py_strip domain)"

definition resolve_url ::
  "(string \<Rightarrow> string \<Rightarrow> exc + cell option) \<Rightarrow> string \<Rightarrow> string
     \<Rightarrow> dataframe option \<Rightarrow> dataframe option \<Rightarrow> task_state" where
  \<comment> \<open>Steps 1 and 2 of the task.\<close>
  "resolve_url search_google_serper my_product_name domain verification_df products_url_df =
     serper_step search_google_serper my_product_name domain
       (local_lookup (index_key my_product_name domain) verification_df products_url_df)"

definition scrape_step ::
  "(string \<Rightarrow> string \<Rightarrow> exc + (string option \<times> pyval \<times> status))
     \<Rightarrow> string \<Rightarrow> string \<Rightarrow> task_state \<Rightarrow> result" where
  \<comment> \<open>Step 3: scrape with the lightweight extractor, or mark the task for the
      automation worker, or keep the failure status of the resolver. A URL that passes
      the test is a string.\<close>
  "scrape_step extract my_product_name domain s =
     (let result = \<lparr>r_status = t_status s, r_name = None, r_price = PyNone, r_url = None,
                     r_domain = S domain, r_my_product_name = S my_product_name\<rparr>
      in if valid_url (held_url s)
         then
           (case held_url s of
              Some (S u) \<Rightarrow>
                if domain = ''lepetitvapoteur.com''
                then result\<lparr>r_url := Some u, r_status := Text ''Requires LPV''\<rparr>
                else
                  (case extract u domain of
                     Inl e \<Rightarrow> result\<lparr>r_url := Some u, r_status := Text ''ScrapingException''\<rparr>
                   | Inr (comp_name, comp_price, http_status) \<Rightarrow>
                       result\<lparr>r_url := Some u, r_status := http_status, r_name := comp_name,
                              r_price := comp_price\<rparr>)
            | _ \<Rightarrow> result)
         else if \<not> verification_has_no_url s
         then
           (if t_status s \<notin> {Text ''Serper Not Found'', Text ''Serper API Error'',
                               Text ''LocalLookupError''}
            then result\<lparr>r_status := Text ''No URL To Scrape''\<rparr>
            else result)
         else result)"

definition worker_task ::
  "(string \<Rightarrow> string \<Rightarrow> exc + cell option)
     \<Rightarrow> (string \<Rightarrow> string \<Rightarrow> exc + (string option \<times> pyval \<times> status))
     \<Rightarrow> cell \<Rightarrow> cell \<Rightarrow> dataframe option \<Rightarrow> dataframe option \<Rightarrow> result" where
  \<comment> \<open>\<open>_worker_task\<close>. \<open>strip\<close> on a name or a domain that is not a string raises
      AttributeError, which ends the task with KeyNormalizationError.\<close>
  "worker_task search_google_serper extract my_product_name domain verification_df products_url_df =
     (case (my_product_name, domain) of
        (S n, S d) \<Rightarrow>
          scrape_step extract n d
            (resolve_url search_google_serper n d verification_df products_url_df)
      | _ \<Rightarrow> \<lparr>r_status = Text ''KeyNormalizationError'', r_name = None, r_price = PyNone,
               r_url = None, r_domain = domain, r_my_product_name = my_product_name\<rparr>)"

section \<open>The lightweight extractor\<close>

definition is_digit :: "char \<Rightarrow> bool" where
  "is_digit c = (48 \<le> (of_char c :: nat) \<and> (of_char c :: nat) \<le> 57)"

definition digits_val :: "string \<Rightarrow> nat" where
  "digits_val ds = foldl (\<lambda>a c. 10 * a + (of_char c - 48)) 0 ds"

definition clean_price :: "string \<Rightarrow> pyfloat option" where
  \<comment> \<open>\<open>re.sub(r'[^\d,\.]', '', t).replace(',', '.')\<close>, then the leftmost match of
      \<open>(\d+(\.\d+)?)\<close> converted by \<open>float\<close>; None when there is no digit.\<close>
  "clean_price price_text =
     (let price_clean = map (\<lambda>c. if c = CHR '','' then CHR ''.'' else c)
                          (filter (\<lambda>c. is_digit c \<or> c = CHR '','' \<or> c = CHR ''.'') price_text);
          m = dropWhile (\<lambda>c. \<not> is_digit c) price_clean
      in if m = [] then None
         else
           let ip = takeWhile is_digit m;
               rest = dropWhile is_digit m;
               fp = (case rest of
                       [] \<Rightarrow> []
                     | c # r \<Rightarrow> if c = CHR ''.'' then takeWhile is_digit r else [])
           in Some (fl (of_nat (digits_val ip) + of_nat (digits_val fp) / 10 ^ length fp)))"

primrec py_in :: "string \<Rightarrow> string \<Rightarrow> bool" where
  \<comment> \<open>\<open>sub in s\<close> on strings\<close>
  "py_in sub [] = (sub = [])"
| "py_in sub (c # cs) = (take (length sub) (c # cs) = sub \<or> py_in sub cs)"

text \<open>
  A fetched page is given by what the selectors of the extractor find in it. An element
  that \<open>soup.find\<close> does not find is None; a found element is given by the text
  \<open>get_text(strip=True)\<close> returns for it, or by what is found inside it. Calling
  \<open>.find\<close> on None raises AttributeError.
\<close>

record page =
  lpv_title :: "string option option"
    \<comment> \<open>\<open>h1.product-title\<close>, and the text of its first \<open>span\<close>\<close>
  lpv_block :: "string option option"
    \<comment> \<open>\<open>div#block-achat-wrap\<close>, and the text of its \<open>span.our_price_display\<close>\<close>
  tak_title :: "string option"
    \<comment> \<open>\<open>h1.c-pdt__title\<close>\<close>
  tak_prices :: "(string option \<times> string option) option"
    \<comment> \<open>\<open>div.product-prices\<close>, and its \<open>span.c-price--old\<close> and \<open>span.c-price--current\<close>\<close>
  kum_title :: "string option"
    \<comment> \<open>\<open>h1#h1_title\<close>\<close>
  kum_price :: "(string option \<times> string option) option"
    \<comment> \<open>\<open>div.price\<close>, and its \<open>span#old_price_display\<close> and \<open>span#our_price_display\<close>\<close>
  cig_reduction :: "(string list option \<times> string option) option"
    \<comment> \<open>\<open>div#reduction_display\<close>: its class attribute and its \<open>span#old_price\<close>\<close>
  cig_price :: "string option"
    \<comment> \<open>\<open>span#our_price_display\<close>\<close>
  cig_name :: "string option"
    \<comment> \<open>\<open>div.notranslate span.name\<close>\<close>

record response =
  status_code :: int
  content :: page

definition nonempty_text :: "string option \<Rightarrow> bool" where
  \<comment> \<open>Python truth of a text that is None or a string\<close>
  "nonempty_text t = (case t of None \<Rightarrow> False | Some x \<Rightarrow> x \<noteq> [])"

definition parse_page :: "string \<Rightarrow> page \<Rightarrow> exc + (string option \<times> string option)" where
  \<comment> \<open>The domain dispatch: the name and the price text, or the AttributeError of a
      \<open>.find\<close> on None.\<close>
  "parse_page domain soup =
     (if py_in ''lepetitvapoteur.com'' domain
      then
        (case lpv_title soup of
           None \<Rightarrow> Inl (OtherException ''AttributeError'')
         | Some name \<Rightarrow>
             (case lpv_block soup of
                None \<Rightarrow> Inl (OtherException ''AttributeError'')
              | Some price_text \<Rightarrow> Inr (name, price_text)))
      else if py_in ''taklope.com'' domain
      then
        (case tak_prices soup of
           None \<Rightarrow> Inl (OtherException ''AttributeError'')
         | Some (old, current) \<Rightarrow>
             Inr (tak_title soup, (if old = None then current else old)))
      else if py_in ''kumulusvape.fr'' domain
      then
        Inr (kum_title soup,
          (case kum_price soup of
             None \<Rightarrow> None
           | Some (old_price_text_raw, current_price_text_raw) \<Rightarrow>
               let validated_original_price =
                     (if nonempty_text old_price_text_raw
                      then clean_price (str_or_empty old_price_text_raw) else None)
               in if validated_original_price \<noteq> None then old_price_text_raw
                  else if nonempty_text current_price_text_raw then current_price_text_raw
                  else None))
      else if py_in ''cigaretteelec.fr'' domain
      then
        Inr (cig_name soup,
          (case cig_reduction soup of
             Some (classes, old_price) \<Rightarrow>
               if (case classes of None \<Rightarrow> True | Some cs \<Rightarrow> ''o-0'' \<notin> set cs)
               then old_price
               else cig_price soup
           | None \<Rightarrow> cig_price soup))
      else Inr (None, None))"

definition extract_body ::
  "(string \<Rightarrow> exc + response) \<Rightarrow> string \<Rightarrow> string \<Rightarrow> exc + (string option \<times> pyval \<times> status)" where
  \<comment> \<open>The try block: \<open>requests.get\<close>, \<open>raise_for_status\<close> (an HTTPError for a status
      from 400 to 599), the parse and the price conversion.\<close>
  "extract_body http_get url domain =
     (case http_get url of
        Inl e \<Rightarrow> Inl e
      | Inr res \<Rightarrow>
          if 400 \<le> status_code res \<and> status_code res < 600
          then Inl (HTTPError (status_code res))
          else
            (case parse_page domain (content res) of
               Inl e \<Rightarrow> Inl e
             | Inr (name, price_text) \<Rightarrow>
                 let price = (if nonempty_text price_text
                              then (case clean_price (str_or_empty price_text) of
                                      None \<Rightarrow> PyNone | Some f \<Rightarrow> PyNum f)
                              else PyNone)
                 in Inr (name, price, Code (status_code res))))"

definition extract_product_info ::
  "(string \<Rightarrow> exc + response) \<Rightarrow> string \<Rightarrow> string \<Rightarrow> string option \<times> pyval \<times> status" where
  \<comment> \<open>The try block under its three handlers, in the order of the source.\<close>
  "extract_product_info http_get url domain =
     (case extract_body http_get url domain of
        Inr r \<Rightarrow> r
      | Inl (HTTPError c) \<Rightarrow> (None, PyNone, Code c)
      | Inl RequestException \<Rightarrow> (None, PyNone, Text ''RequestError'')
      | Inl (OtherException n) \<Rightarrow> (None, PyNone, Text ''UnknownError''))"

section \<open>The result correlator\<close>

record report_row =
  MonNomProduit :: string
  Concurrent :: string
  NomProduitConcurrent :: string
  SimilariteNom :: pyfloat
  MonPrix :: pyval
  PrixConcurrent :: pyval
  EstMoinsCher :: bool
  DifferencePrix :: diff
  URLConcurrent :: "string option"

text \<open>
  What a call of \<open>process_single_result\<close> leaves behind: the report list, the two
  booleans it returns, and the two frames the caller holds.
\<close>

record correlated =
  results_list :: "report_row list"
  verification_changed_local :: bool
  products_url_changed_local :: bool
  verification_after :: "dataframe option"
  products_url_after :: "dataframe option"

definition est_moins_cher :: "pyval \<Rightarrow> pyval \<Rightarrow> bool" where
  \<comment> \<open>\<open>float(competitor_price) < float(my_price)\<close>, False when a conversion raises\<close>
  "est_moins_cher my_price competitor_price =
     (case (py_float competitor_price, py_float my_price) of
        (Some c, Some m) \<Rightarrow> fless c m
      | _ \<Rightarrow> False)"

definition process_single_result ::
  "(string \<Rightarrow> string \<Rightarrow> exc + pyfloat) \<Rightarrow> report_row list \<Rightarrow> string \<Rightarrow> pyval \<Rightarrow> string
     \<Rightarrow> string option \<Rightarrow> status \<Rightarrow> string option \<Rightarrow> pyval
     \<Rightarrow> dataframe option \<Rightarrow> dataframe option \<Rightarrow> correlated" where
  \<comment> \<open>\<open>similarity_ratio\<close> is the Levenshtein collaborator; it may raise. The success
      branch is the try block; when it raises, \<open>processed_ok\<close> is reset and the failure
      branch runs with the \<open>status_str\<close> computed at the start.\<close>
  "process_single_result similarity_ratio results my_product_name my_price domain
       competitor_url http_status competitor_name competitor_price
       verification_df products_url_df =
     (let success = (str_is_200 http_status \<and> nonempty_text competitor_name
                      \<and> competitor_price \<noteq> PyNone);
          tried =
            (if success
             then
               (case similarity_ratio (py_lower my_product_name)
                       (py_lower (str_or_empty competitor_name)) of
                  Inl e \<Rightarrow> None
                | Inr ratio \<Rightarrow>
                    let row = \<lparr>MonNomProduit = my_product_name, Concurrent = domain,
                                NomProduitConcurrent = str_or_empty competitor_name,
                                SimilariteNom = py_round2 ratio,
                                MonPrix = my_price, PrixConcurrent = competitor_price,
                                EstMoinsCher = est_moins_cher my_price competitor_price,
                                DifferencePrix =
                                  calculate_price_difference my_price competitor_price,
                                URLConcurrent = competitor_url\<rparr>;
                        saved = save_or_update_url my_product_name domain competitor_url
                                  products_url_df;
                        removed = remove_from_manual_verification my_product_name domain
                                    verification_df
                    in Some \<lparr>results_list = results @ [row],
                              verification_changed_local = changed removed,
                              products_url_changed_local = changed saved,
                              verification_after = passed_df removed,
                              products_url_after = passed_df saved\<rparr>)
             else None)
      in case tried of
           Some done \<Rightarrow> done
         | None \<Rightarrow>
             if \<not> str_is_text http_status ''Verification No URL''
             then
               let added = add_to_manual_verification my_product_name domain
                             verification_df competitor_url
               in \<lparr>results_list = results,
                    verification_changed_local = changed added,
                    products_url_changed_local = False,
                    verification_after = passed_df added,
                    products_url_after = products_url_df\<rparr>
             else \<lparr>results_list = results,
                    verification_changed_local = False,
                    products_url_changed_local = False,
                    verification_after = verification_df,
                    products_url_after = products_url_df\<rparr>)"

section \<open>The automation worker\<close>




text \<open>
  A message of the task queue: the sentinel None, a dictionary with the keys \<open>url\<close> and
  \<open>my_product_name\<close>, or anything else, given by its \<open>str\<close>. \<open>url_queue.get()\<close> blocks
  and does not raise. The loop calls the extraction routine as a function that returns
  a triple or raises, and \<open>result_queue.put\<close> as a call that may raise: \<open>put i False\<close>
  is the put of the result in iteration \<open>i\<close>, \<open>put i True\<close> the put of the handler, each
  None when it succeeds. The locals \<open>url\<close> and \<open>my_product_name\<close> keep their values from
  one iteration to the next; they are unset (None) until the first task.
\<close>

datatype task_msg = Sentinel | Task string string | Malformed string

fun exc_name :: "exc \<Rightarrow> string" where
  \<comment> \<open>\<open>type(e).__name__\<close>\<close>
  "exc_name (HTTPError c) = ''HTTPError''"
| "exc_name RequestException = ''RequestException''"
| "exc_name (OtherException n) = n"

definition queue_Empty :: exc where
  "queue_Empty = OtherException ''Empty''"

definition lpv_result :: "status \<Rightarrow> string option \<Rightarrow> pyval \<Rightarrow> string \<Rightarrow> string \<Rightarrow> result" where
  \<comment> \<open>A result dictionary of the worker: the domain is fixed.\<close>
  "lpv_result st name price url my_product_name =
     \<lparr>r_status = st, r_name = name, r_price = price, r_url = Some url,
      r_domain = S ''lepetitvapoteur.com'', r_my_product_name = S my_product_name\<rparr>"

definition handle_loop_error ::
  "(nat \<Rightarrow> bool \<Rightarrow> exc option) \<Rightarrow> nat \<Rightarrow> string option \<times> string option \<Rightarrow> exc \<Rightarrow> result list" where
  \<comment> \<open>The two handlers of the loop body. \<open>except queue.Empty\<close>: sleep and continue,
      nothing is put. \<open>except Exception\<close>: put an error result with the locals \<open>url\<close>
      and \<open>my_product_name\<close> if they are set; when that put raises too, only log.\<close>
  "handle_loop_error put i locs loop_err =
     (if loop_err = queue_Empty then []
      else
        (case put i True of
           Some q_err \<Rightarrow> []
         | None \<Rightarrow>
             [lpv_result (Text (''WorkerLoopError: '' @ exc_name loop_err)) None PyNone
                (case fst locs of None \<Rightarrow> ''Inconnue'' | Some u \<Rightarrow> u)
                (case snd locs of None \<Rightarrow> ''Inconnu'' | Some n \<Rightarrow> n)]))"

definition put_result ::
  "(nat \<Rightarrow> bool \<Rightarrow> exc option) \<Rightarrow> nat \<Rightarrow> string option \<times> string option \<Rightarrow> result \<Rightarrow> result list" where
  \<comment> \<open>\<open>result_queue.put(r)\<close> inside the try block\<close>
  "put_result put i locs r =
     (case put i False of
        None \<Rightarrow> [r]
      | Some e \<Rightarrow> handle_loop_error put i locs e)"

fun lpv_loop ::
  "(nat \<Rightarrow> string \<Rightarrow> exc + (string option \<times> pyval \<times> status)) \<Rightarrow> (nat \<Rightarrow> bool \<Rightarrow> exc option)
     \<Rightarrow> nat \<Rightarrow> string option \<times> string option \<Rightarrow> task_msg list \<Rightarrow> result list" where
  \<comment> \<open>The \<open>while True\<close> loop on the messages that arrive, in order; the results that
      reach the result queue. With no message left the worker blocks in \<open>get\<close>.\<close>
  "lpv_loop scrape put i locs [] = []"
| "lpv_loop scrape put i locs (Sentinel # rest) = []"
| "lpv_loop scrape put i locs (Malformed t # rest) =
     put_result put i locs
       (lpv_result (Text ''InvalidTaskData'') None PyNone t ''Inconnu (Erreur Task Data)'')
     @ lpv_loop scrape put (Suc i) locs rest"
| "lpv_loop scrape put i locs (Task url my_product_name # rest) =
     (case scrape i url of
        Inl loop_err \<Rightarrow> handle_loop_error put i (Some url, Some my_product_name) loop_err
      | Inr (name, price, status) \<Rightarrow>
          put_result put i (Some url, Some my_product_name)
            (lpv_result status name price url my_product_name))
     @ lpv_loop scrape put (Suc i) (Some url, Some my_product_name) rest"

definition persistent_lpv_worker ::
  "bool \<Rightarrow> (nat \<Rightarrow> string \<Rightarrow> exc + (string option \<times> pyval \<times> status))
     \<Rightarrow> (nat \<Rightarrow> bool \<Rightarrow> exc option) \<Rightarrow> task_msg list \<Rightarrow> result list" where
  \<comment> \<open>\<open>driver_started\<close>: the WebDriver initialised. When it did not, the worker returns
      before it reads the queue.\<close>
  "persistent_lpv_worker driver_started scrape put msgs =
     (if driver_started then lpv_loop scrape put 0 (None, None) msgs else [])"





section \<open>The orchestrator's progress accounting\<close>

text \<open>
  \<open>process_products\<close> is modelled in what it counts: \<open>total_tasks\<close>,
  \<open>completed_final_tasks\<close>, \<open>lpv_tasks_submitted_count\<close> and the calls of the progress
  callback. A catalog row is its \<open>NomProduit\<close> (a string, empty when the name is falsy)
  and its \<open>MonPrix\<close> as the price lambda sees it: missing (\<open>pd.notna\<close> is false, the
  lambda gives None), a text \<open>float\<close> converts, or a text on which \<open>float\<close> raises
  ValueError, which the loading block logs and raises again.
\<close>

datatype csv_price = Missing | Parsed pyfloat | Unparsable

type_synonym catalog = "(string \<times> csv_price) list"

definition kept_price :: "csv_price \<Rightarrow> pyfloat option" where
  \<comment> \<open>A price \<open>dropna()\<close> keeps: not None and not NaN.\<close>
  "kept_price p = (case p of Parsed f \<Rightarrow> (if f = NaN then None else Some f) | _ \<Rightarrow> None)"

definition product_prices :: "catalog \<Rightarrow> string \<Rightarrow> pyfloat option" where
  \<comment> \<open>\<open>products.set_index('NomProduit')['_my_price_float'].dropna().to_dict()\<close>: of the
      rows with one name, the last one that has a price gives it.\<close>
  "product_prices products =
     map_of (rev (concat (map (\<lambda>(n, p). case kept_price p of None \<Rightarrow> [] | Some f \<Rightarrow> [(n, f)])
                            products)))"

definition submitted_tasks :: "catalog \<Rightarrow> string list \<Rightarrow> (string \<times> string \<times> pyfloat) list" where
  \<comment> \<open>The submission loop: a row with a falsy name or no price in \<open>product_prices\<close> is
      skipped; every other row gives one task per competitor.\<close>
  "submitted_tasks products competitors =
     concat (map (\<lambda>(my_product_name, p).
               case product_prices products my_product_name of
                 None \<Rightarrow> []
               | Some my_price \<Rightarrow>
                   if my_product_name = [] then []
                   else map (\<lambda>domain. (my_product_name, domain, my_price)) competitors)
             products)"

text \<open>
  What the loop over the completed futures does with one future: \<open>future.result()\<close>
  or the handling of the result raises (the handler counts the pair as finished); the
  task asks for the automation worker and is put on its queue (\<open>True\<close>) or is not, for
  want of a URL or of a live worker (\<open>False\<close>); the task is terminal and goes to the
  result correlator.
\<close>

datatype future_outcome = RaisedInPool | RequiresLPV bool | Terminal

record counters =
  completed_final_tasks :: nat
  lpv_tasks_submitted_count :: nat
  progress_calls :: "(nat \<times> nat) list"

definition count_completed :: "nat \<Rightarrow> counters \<Rightarrow> counters" where
  \<comment> \<open>\<open>completed_final_tasks += 1\<close>, then \<open>progress_callback(completed, total)\<close>\<close>
  "count_completed total_tasks c =
     c\<lparr>completed_final_tasks := Suc (completed_final_tasks c),
       progress_calls := progress_calls c @ [(Suc (completed_final_tasks c), total_tasks)]\<rparr>"

fun pool_step :: "nat \<Rightarrow> counters \<Rightarrow> future_outcome \<Rightarrow> counters" where
  "pool_step total_tasks c (RequiresLPV True) =
     c\<lparr>lpv_tasks_submitted_count := Suc (lpv_tasks_submitted_count c)\<rparr>"
| "pool_step total_tasks c out = count_completed total_tasks c"

primrec collect_lpv :: "nat \<Rightarrow> nat \<Rightarrow> counters \<Rightarrow> counters" where
  \<comment> \<open>\<open>for i in range(lpv_tasks_submitted_count)\<close>: a result, an invalid result, a
      timeout and an error all count the pair as finished.\<close>
  "collect_lpv total_tasks 0 c = c"
| "collect_lpv total_tasks (Suc n) c = collect_lpv total_tasks n (count_completed total_tasks c)"

datatype run = LoadError | EmptyCatalog | Finished nat counters

definition process_products ::
  "(string \<times> string \<times> pyfloat \<Rightarrow> future_outcome) \<Rightarrow> string list \<Rightarrow> catalog \<Rightarrow> run" where
  \<comment> \<open>\<open>outcome\<close> says how the future of each submitted task ends. \<open>Finished\<close> carries
      \<open>total_tasks\<close> and the counters at the end of the run.\<close>
  "process_products outcome competitors products =
     (if Unparsable \<in> set (map snd products) then LoadError
      else
        let total_products_csv = length products
        in if total_products_csv = 0 then EmptyCatalog
           else
             let total_tasks = total_products_csv * length competitors;
                 c0 = \<lparr>completed_final_tasks = 0, lpv_tasks_submitted_count = 0,
                       progress_calls = [(0, total_tasks)]\<rparr>;
                 c1 = foldl (pool_step total_tasks) c0
                        (map outcome (submitted_tasks products competitors))
             in Finished total_tasks (collect_lpv total_tasks (lpv_tasks_submitted_count c1) c1))"

section \<open>Inputs used in the evaluations\<close>

definition resolution :: "task_state \<Rightarrow> cell option \<times> status \<times> bool" where
  \<comment> \<open>What the resolver hands on: the URL it holds, its status, and whether it called
      the search collaborator.\<close>
  "resolution s = (held_url s, t_status s, serper_called s)"

definition blank_verification_df :: dataframe where
  \<comment> \<open>A verification queue whose entry for Widget at taklope.com has a URL of one space.\<close>
  "blank_verification_df =
     [(''MonNomProduit'', [S ''Widget'']), (''Concurrent'', [S ''taklope.com'']),
      (''URLConcurrent'', [S '' '']), (''IndexUnique'', [S ''widget__taklope.com''])]"

definition listed_verification_df :: dataframe where
  \<comment> \<open>A verification queue, with its index column, whose entry for Widget at
      taklope.com has a URL.\<close>
  "listed_verification_df =
     [(''MonNomProduit'', [S ''Widget'']), (''Concurrent'', [S ''taklope.com'']),
      (''URLConcurrent'', [S ''http://v/w'']), (''IndexUnique'', [S ''widget__taklope.com''])]"

definition indexed_cache :: dataframe where
  \<comment> \<open>A confirmed-URL cache, with its index column, that holds Widget at taklope.com.\<close>
  "indexed_cache =
     [(''NomProduit'', [S ''Widget'']), (''CompetitorDomain'', [S ''taklope.com'']),
      (''URLConcurrent'', [S ''http://t/old'']), (''IndexUnique'', [S ''widget__taklope.com''])]"

definition parked_verification_df :: dataframe where
  \<comment> \<open>A verification queue that holds Widget at taklope.com, without a URL.\<close>
  "parked_verification_df =
     [(''MonNomProduit'', [S ''Widget'']), (''Concurrent'', [S ''taklope.com'']),
      (''URLConcurrent'', [S []])]"

definition one_entry_cache :: dataframe where
  \<comment> \<open>A confirmed-URL cache that holds Widget at taklope.com.\<close>
  "one_entry_cache =
     [(''NomProduit'', [S ''Widget'']), (''CompetitorDomain'', [S ''taklope.com'']),
      (''URLConcurrent'', [S ''http://t/old''])]"

definition bare_page :: page where
  \<comment> \<open>A page on which no selector of the extractor finds an element.\<close>
  "bare_page = \<lparr>lpv_title = None, lpv_block = None, tak_title = None, tak_prices = None,
     kum_title = None, kum_price = None, cig_reduction = None, cig_price = None,
     cig_name = None\<rparr>"

definition add_twice :: "string \<Rightarrow> string \<Rightarrow> string option \<Rightarrow> dataframe option \<Rightarrow> bool \<times> bool" where
  "add_twice p d u df =
     (let r1 = add_to_manual_verification p d df u;
          r2 = add_to_manual_verification p d (passed_df r1) u
      in (changed r1, changed r2))"

definition remove_twice :: "string \<Rightarrow> string \<Rightarrow> dataframe option \<Rightarrow> bool \<times> bool" where
  "remove_twice p d df =
     (let r1 = remove_from_manual_verification p d df;
          r2 = remove_from_manual_verification p d (passed_df r1)
      in (changed r1, changed r2))"

definition raising_scrape :: "nat \<Rightarrow> string \<Rightarrow> exc + (string option \<times> pyval \<times> status)" where
  \<comment> \<open>An extraction call that raises in the first iteration and returns afterwards.\<close>
  "raising_scrape k u =
     (if k = 0 then Inl (OtherException ''TypeError'')
      else Inr (Some ''Widget L'', PyNum (Fin 5), Code 200))"

definition failing_put :: "nat \<Rightarrow> bool \<Rightarrow> exc option" where
  \<comment> \<open>A result queue whose put of the result raises in the third iteration.\<close>
  "failing_put k handler =
     (if k = 2 \<and> \<not> handler then Some (OtherException ''ValueError'') else None)"

definition queued_messages :: "task_msg list" where
  "queued_messages =
     [Task ''http://l/a'' ''A'', Task ''http://l/b'' ''B'', Task ''http://l/c'' ''C'',
      Sentinel, Task ''http://l/d'' ''D'']"

section \<open>Properties of the local cache store\<close>

text \<open>
  C2, at the failing inputs: on the empty confirmed-URL cache, \<open>save_or_update_url\<close>
  for a new pair returns True, and the identical call made again on the caller's frame
  returns True again: the row was appended to a frame only the function's local name
  referred to. The same holds for \<open>add_to_manual_verification\<close> on the empty
  verification queue, and for \<open>remove_from_manual_verification\<close> on a queue that holds
  the pair.
\<close>

theorem save_or_update_url_twice_changed:
  "upsert_twice ''Widget'' ''taklope.com'' (Some ''http://t/w'') (Some empty_products_url_df)
     = (True, True)
   \<and> add_twice ''Widget'' ''taklope.com'' None (Some empty_verification_df) = (True, True)
   \<and> remove_twice ''Widget'' ''taklope.com'' (Some parked_verification_df) = (True, True)"
  by code_simp

lemma upsert_new_pair_keeps_frame:
  "has_cols df [''NomProduit'', ''CompetitorDomain'', ''URLConcurrent''] \<Longrightarrow>
   \<not> mask_any (pair_mask df ''NomProduit'' n ''CompetitorDomain'' d) \<Longrightarrow>
     changed (save_or_update_url n d u (Some df))
     \<and> passed_df (save_or_update_url n d u (Some df)) = Some df"
  by (simp add: save_or_update_url_def df_result_def Let_def)

lemma upsert_new_pair_twice:
  "has_cols df [''NomProduit'', ''CompetitorDomain'', ''URLConcurrent''] \<Longrightarrow>
   \<not> mask_any (pair_mask df ''NomProduit'' n ''CompetitorDomain'' d) \<Longrightarrow>
     upsert_twice n d u (Some df) = (True, True)"
  by (simp add: upsert_twice_def Let_def upsert_new_pair_keeps_frame)

lemma map_of_loc_set:
  "map_of (loc_set df m c v) k =
     (if k = c then map_option (\<lambda>xs. map (\<lambda>(b, x). if b then v else x) (zip m xs)) (map_of df k)
      else map_of df k)"
  by (induction df) (auto simp: loc_set_def)

lemma upsert_keeps_other_columns:
  "k \<noteq> ''URLConcurrent'' \<Longrightarrow>
   has_cols df [''NomProduit'', ''CompetitorDomain'', ''URLConcurrent''] \<Longrightarrow>
   passed_df (save_or_update_url n d u (Some df)) = Some df' \<Longrightarrow>
     df_col df' k = df_col df k"
  by (auto simp: save_or_update_url_def df_result_def Let_def df_col_def map_of_loc_set
      split: if_splits)

text \<open>
  C6, at the failing input: the cache holds (Widget, taklope.com); the upsert comes for
  (\<open>'widget '\<close>, taklope.com), the same pair under the normalised key. The raw strings
  differ, so the function takes the add branch: it returns True, the entry the caller
  holds keeps its old URL, and the frame it builds and drops has both rows.
\<close>

theorem upsert_case_variant_not_merged:
  "index_key ''widget '' ''taklope.com'' = index_key ''Widget'' ''taklope.com''
   \<and> save_or_update_url ''widget '' ''taklope.com'' (Some ''http://t/new'') (Some one_entry_cache)
     = \<lparr>changed = True, passed_df = Some one_entry_cache,
        local_df = Some [(''NomProduit'', [S ''Widget'', S ''widget '']),
                         (''CompetitorDomain'', [S ''taklope.com'', S ''taklope.com'']),
                         (''URLConcurrent'', [S ''http://t/old'', S ''http://t/new''])]\<rparr>"
  by code_simp

section \<open>Properties of the result correlator\<close>

lemma add_keeps_frame:
  "has_cols df [''MonNomProduit'', ''Concurrent''] \<Longrightarrow>
     passed_df (add_to_manual_verification n d (Some df) u) = Some df"
  by (simp add: add_to_manual_verification_def df_result_def Let_def)

lemma remove_keeps_frame:
  "passed_df (remove_from_manual_verification n d vdf) = vdf"
  by (simp add: remove_from_manual_verification_def df_result_def Let_def split: option.split)

lemma verification_never_changes:
  "has_cols df [''MonNomProduit'', ''Concurrent''] \<Longrightarrow>
     verification_after (process_single_result sim rs n p d u st cn cp (Some df) pdf) = Some df"
  by (simp add: process_single_result_def Let_def add_keeps_frame remove_keeps_frame
      split: option.split sum.split)

text \<open>
  C3, at the failing inputs. A success (status 200, a name and a price) for a pair that
  is parked in the verification queue and absent from the cache: the report row is
  added and both booleans are True, but the caller's cache still lacks the pair and the
  caller's verification queue still holds it. A failure (status 404) for a pair absent
  from the verification queue: the boolean is True, the queue still lacks the pair.
\<close>

theorem success_leaves_collections_unchanged:
  "process_single_result (\<lambda>a b. Inr (Fin 1)) [] ''Widget'' (PyNum (Fin 50)) ''taklope.com''
       (Some ''http://t/w'') (Code 200) (Some ''Widget Pro'') (PyNum (Fin 40))
       (Some parked_verification_df) (Some empty_products_url_df)
     = \<lparr>results_list =
          [\<lparr>MonNomProduit = ''Widget'', Concurrent = ''taklope.com'',
            NomProduitConcurrent = ''Widget Pro'', SimilariteNom = Fin 1,
            MonPrix = PyNum (Fin 50), PrixConcurrent = PyNum (Fin 40), EstMoinsCher = True,
            DifferencePrix = Num (Fin 25), URLConcurrent = Some ''http://t/w''\<rparr>],
        verification_changed_local = True, products_url_changed_local = True,
        verification_after = Some parked_verification_df,
        products_url_after = Some empty_products_url_df\<rparr>
   \<and> process_single_result (\<lambda>a b. Inr (Fin 1)) [] ''Widget'' (PyNum (Fin 50)) ''taklope.com''
       (Some ''http://t/w'') (Code 404) None PyNone
       (Some empty_verification_df) (Some empty_products_url_df)
     = \<lparr>results_list = [],
        verification_changed_local = True, products_url_changed_local = False,
        verification_after = Some empty_verification_df,
        products_url_after = Some empty_products_url_df\<rparr>"
  by code_simp

text \<open>
  C10, at the failing input: the page answers 200 and has none of the elements, or a
  price text without a digit; \<open>extract_product_info\<close> returns status 200 with no name or
  no price. The result correlator takes the failure branch: no report row, and the
  verification boolean is True; but the caller's verification queue is as it was, the
  entry is not in it.
\<close>

theorem status_200_without_data_not_stored:
  "extract_product_info (\<lambda>u. Inr \<lparr>status_code = 200, content = bare_page\<rparr>)
      ''http://k/w'' ''kumulusvape.fr'' = (None, PyNone, Code 200)
   \<and> extract_product_info
       (\<lambda>u. Inr \<lparr>status_code = 200,
                   content = bare_page\<lparr>kum_title := Some ''Widget K'',
                                        kum_price := Some (None, Some ''Rupture'')\<rparr>\<rparr>)
      ''http://k/w'' ''kumulusvape.fr'' = (Some ''Widget K'', PyNone, Code 200)
   \<and> process_single_result (\<lambda>a b. Inr (Fin 1)) [] ''Widget'' (PyNum (Fin 50)) ''kumulusvape.fr''
       (Some ''http://k/w'') (Code 200) None PyNone
       (Some empty_verification_df) (Some empty_products_url_df)
     = \<lparr>results_list = [],
        verification_changed_local = True, products_url_changed_local = False,
        verification_after = Some empty_verification_df,
        products_url_after = Some empty_products_url_df\<rparr>
   \<and> process_single_result (\<lambda>a b. Inr (Fin 1)) [] ''Widget'' (PyNum (Fin 50)) ''kumulusvape.fr''
       (Some ''http://k/w'') (Code 200) (Some ''Widget K'') PyNone
       (Some empty_verification_df) (Some empty_products_url_df)
     = \<lparr>results_list = [],
        verification_changed_local = True, products_url_changed_local = False,
        verification_after = Some empty_verification_df,
        products_url_after = Some empty_products_url_df\<rparr>"
  by code_simp

section \<open>Properties of the automation worker\<close>













lemma lpv_worker_example:
  "map (\<lambda>r. (r_status r, r_url r, r_my_product_name r))
     (persistent_lpv_worker True raising_scrape failing_put queued_messages)
   = [(Text ''WorkerLoopError: TypeError'', Some ''http://l/a'', S ''A''),
      (Code 200, Some ''http://l/b'', S ''B''),
      (Text ''WorkerLoopError: ValueError'', Some ''http://l/c'', S ''C'')]"
  by code_simp

section \<open>Properties of the lightweight extractor\<close>

lemma parse_page_exc:
  "parse_page domain soup = Inl e \<Longrightarrow> e = OtherException ''AttributeError''"
  by (auto simp: parse_page_def Let_def split: if_splits option.splits prod.splits)

text \<open>
  C8: for every URL and domain \<open>extract_product_info\<close> returns a triple, whatever the
  try block does. When \<open>requests.get\<close> raises an HTTP error, or returns a response whose
  status is from 400 to 599, the triple is \<open>(None, None, status code)\<close>; when it raises
  another \<open>requests\<close> exception the status is \<open>RequestError\<close>; when it or the parse
  raises anything else the status is \<open>UnknownError\<close>; otherwise the triple is the name,
  the converted price and the status code of the response.
\<close>

theorem extract_product_info_total:
  "extract_product_info (http_get(url := Inl (HTTPError c))) url domain = (None, PyNone, Code c)
   \<and> extract_product_info (http_get(url := Inl RequestException)) url domain
       = (None, PyNone, Text ''RequestError'')
   \<and> extract_product_info (http_get(url := Inl (OtherException n))) url domain
       = (None, PyNone, Text ''UnknownError'')
   \<and> extract_product_info (http_get(url := Inr \<lparr>status_code = c, content = soup\<rparr>)) url domain
       = (if 400 \<le> c \<and> c < 600 then (None, PyNone, Code c)
          else case parse_page domain soup of
                 Inl e \<Rightarrow> (None, PyNone, Text ''UnknownError'')
               | Inr (name, price_text) \<Rightarrow>
                   (name,
                    (if nonempty_text price_text
                     then (case clean_price (str_or_empty price_text) of
                             None \<Rightarrow> PyNone | Some f \<Rightarrow> PyNum f)
                     else PyNone),
                    Code c))
   \<and> (case extract_body http_get url domain of
         Inr r \<Rightarrow> extract_product_info http_get url domain = r
       | Inl e \<Rightarrow> extract_product_info http_get url domain
                  = (None, PyNone,
                     (case e of HTTPError k \<Rightarrow> Code k
                      | RequestException \<Rightarrow> Text ''RequestError''
                      | OtherException m \<Rightarrow> Text ''UnknownError'')))"
  by (auto simp: extract_product_info_def extract_body_def Let_def
      split: sum.splits exc.splits prod.splits dest: parse_page_exc)

section \<open>Properties of the URL resolver\<close>

lemma valid_truthy: "valid_url u \<Longrightarrow> truthy u"
  by (cases u rule: valid_url.cases) auto

lemma init_simps:
  "held_url init_state = None" "\<not> verification_has_no_url init_state"
  by (simp_all add: init_state_def)

lemma serper_step_searched:
  "\<not> truthy (held_url s) \<Longrightarrow> \<not> verification_has_no_url s \<Longrightarrow> held_url s = None \<Longrightarrow>
   resolution (serper_step srch n d s) =
     (case srch n d of
        Inl e \<Rightarrow> (None, Text ''Serper API Error'', True)
      | Inr u \<Rightarrow> if valid_url u then (u, Text ''URL From Serper'', True)
                 else (None, Text ''Serper Not Found'', True))"
  by (simp add: serper_step_def resolution_def split: sum.split)

lemma serper_step_skipped:
  "truthy (held_url s) \<or> verification_has_no_url s \<Longrightarrow> serper_step srch n d s = s"
  by (auto simp: serper_step_def)

lemma resolution_table:
  "resolution (resolve_url search_google_serper my_product_name domain verification_df products_url_df) =
     (let key = index_key my_product_name domain;
          searched =
            (case search_google_serper my_product_name domain of
               Inl e \<Rightarrow> (None, Text ''Serper API Error'', True)
             | Inr u \<Rightarrow> if valid_url u then (u, Text ''URL From Serper'', True)
                        else (None, Text ''Serper Not Found'', True))
      in case index_lookup verification_df key of
           Inr (Indexed u) \<Rightarrow>
             if valid_url u then (u, Text ''URL From Verification'', False)
             else (u, Text ''Verification No URL'', False)
         | Inr NotIndexed \<Rightarrow>
             (case index_lookup products_url_df key of
                Inr (Indexed u) \<Rightarrow>
                  if valid_url u then (u, Text ''URL From Cache'', False) else searched
              | Inr NotIndexed \<Rightarrow> searched
              | Inl e \<Rightarrow> searched)
         | Inl e \<Rightarrow> searched)"
proof (cases "index_lookup verification_df (index_key my_product_name domain)")
  case (Inl e)
  have "held_url (local_lookup (index_key my_product_name domain) verification_df
           products_url_df) = None
        \<and> \<not> verification_has_no_url (local_lookup (index_key my_product_name domain)
           verification_df products_url_df)"
    by (simp add: local_lookup_def check_verification_def Inl init_state_def)
  then show ?thesis
    by (simp add: resolve_url_def Inl serper_step_searched)
next
  case (Inr l)
  show ?thesis
  proof (cases l)
    case (Indexed u)
    show ?thesis
    proof (cases "valid_url u")
      case True
      have "local_lookup (index_key my_product_name domain) verification_df products_url_df
              = init_state\<lparr>found_in_verification := True, held_url := u,
                   t_status := Text ''URL From Verification''\<rparr>"
        by (simp add: local_lookup_def check_verification_def check_products_url_def Inr Indexed
            True valid_truthy)
      then show ?thesis
        by (simp add: resolve_url_def Inr Indexed True serper_step_skipped valid_truthy
            resolution_def init_state_def)
    next
      case False
      have "local_lookup (index_key my_product_name domain) verification_df products_url_df
              = init_state\<lparr>found_in_verification := True, held_url := u,
                   t_status := Text ''Verification No URL'', verification_has_no_url := True\<rparr>"
        by (simp add: local_lookup_def check_verification_def check_products_url_def Inr Indexed
            False)
      then show ?thesis
        by (simp add: resolve_url_def Inr Indexed False serper_step_skipped
            resolution_def init_state_def)
    qed
  next
    case NotIndexed
    have v: "check_verification (index_key my_product_name domain) verification_df init_state
               = Inr init_state"
      by (simp add: check_verification_def Inr NotIndexed)
    show ?thesis
    proof (cases "index_lookup products_url_df (index_key my_product_name domain)")
      case (Inl e)
      have "local_lookup (index_key my_product_name domain) verification_df products_url_df
              = init_state\<lparr>t_status := Text ''LocalLookupError''\<rparr>"
        by (simp add: local_lookup_def v check_products_url_def Inl init_simps)
      then show ?thesis
        by (simp add: resolve_url_def Inr NotIndexed Inl serper_step_searched init_state_def)
    next
      case (Inr l2)
      note P = Inr
      show ?thesis
      proof (cases l2)
        case NotIndexed
        have "local_lookup (index_key my_product_name domain) verification_df products_url_df
                = init_state"
          by (simp add: local_lookup_def v check_products_url_def P NotIndexed init_simps)
        then show ?thesis
          by (simp add: resolve_url_def \<open>index_lookup verification_df _ = Inr l\<close> \<open>l = NotIndexed\<close>
              P NotIndexed serper_step_searched init_state_def)
      next
        case (Indexed u)
        show ?thesis
        proof (cases "valid_url u")
          case True
          have "local_lookup (index_key my_product_name domain) verification_df products_url_df
                  = init_state\<lparr>held_url := u, t_status := Text ''URL From Cache''\<rparr>"
            by (simp add: local_lookup_def v check_products_url_def P Indexed True init_simps)
          then show ?thesis
            by (simp add: resolve_url_def \<open>index_lookup verification_df _ = Inr l\<close>
                \<open>l = NotIndexed\<close> P Indexed True serper_step_skipped valid_truthy
                resolution_def init_state_def)
        next
          case False
          have "local_lookup (index_key my_product_name domain) verification_df products_url_df
                  = init_state"
            by (simp add: local_lookup_def v check_products_url_def P Indexed False init_simps)
          then show ?thesis
            by (simp add: resolve_url_def \<open>index_lookup verification_df _ = Inr l\<close>
                \<open>l = NotIndexed\<close> P Indexed False serper_step_searched init_state_def)
        qed
      qed
    qed
  qed
qed

lemma index_lookup_returns:
  "''URLConcurrent'' \<in> set (df_columns d) \<Longrightarrow> index_lookup (Some d) key \<noteq> Inl e"
proof -
  assume "''URLConcurrent'' \<in> set (df_columns d)"
  then have "map_of d ''URLConcurrent'' \<noteq> None"
    by (simp add: df_columns_def map_of_eq_None_iff)
  then show ?thesis
    by (auto simp: index_lookup_def split: option.splits)
qed

lemma resolve_never_lookup_error:
  "t_status (resolve_url srch n d vdf pdf) \<noteq> Text ''LocalLookupError''"
proof -
  have "fst (snd (resolution (resolve_url srch n d vdf pdf))) \<noteq> Text ''LocalLookupError''"
    unfolding resolution_table by (simp add: Let_def split: sum.split lookup.split)
  then show ?thesis by (simp add: resolution_def)
qed

text \<open>
  The handler of the local lookup sets the status \<open>LocalLookupError\<close>. When a lookup
  raises, no URL is held and the pair is not parked, so the search step runs and sets
  its own status: the resolver never ends with \<open>LocalLookupError\<close>
  (\<open>resolve_never_lookup_error\<close>). A lookup raises only on a frame without the
  \<open>URLConcurrent\<close> column (\<open>index_lookup_returns\<close>); the frames that \<open>process_products\<close>
  passes to the task come from loaders that add the column.
\<close>

text \<open>
  C4: for every product name and domain the resolver decides in this order, the first
  match winning. Here a pair is in a frame when its normalised key is in the frame's
  index column, and a URL is non-empty when it passes the test of the code,
  \<open>url and isinstance(url, str) and url.strip()\<close>. A verification-queue entry with a
  non-empty URL gives that URL with status \<open>URL From Verification\<close>; a
  verification-queue entry without one stops with \<open>Verification No URL\<close>; in both cases
  the search collaborator is not called. Otherwise a confirmed-cache entry with a
  non-empty URL gives it with \<open>URL From Cache\<close>. Otherwise the search collaborator is
  called: \<open>URL From Serper\<close> on a non-empty result, \<open>Serper Not Found\<close> on an empty one
  and \<open>Serper API Error\<close> on an exception. On a frame that has the \<open>URLConcurrent\<close>
  column the lookup does not raise, so that these cases are all the cases.
\<close>

theorem resolve_url_first_match_wins:
  "(index_lookup verification_df (index_key my_product_name domain) = Inr (Indexed u)
      \<and> valid_url u \<longrightarrow>
    resolution (resolve_url search_google_serper my_product_name domain verification_df
        products_url_df)
      = (u, Text ''URL From Verification'', False))
   \<and> (index_lookup verification_df (index_key my_product_name domain) = Inr (Indexed u)
      \<and> \<not> valid_url u \<longrightarrow>
    resolution (resolve_url search_google_serper my_product_name domain verification_df
        products_url_df)
      = (u, Text ''Verification No URL'', False))
   \<and> (index_lookup verification_df (index_key my_product_name domain) = Inr NotIndexed
      \<and> index_lookup products_url_df (index_key my_product_name domain) = Inr (Indexed u)
      \<and> valid_url u \<longrightarrow>
    resolution (resolve_url search_google_serper my_product_name domain verification_df
        products_url_df)
      = (u, Text ''URL From Cache'', False))
   \<and> (index_lookup verification_df (index_key my_product_name domain) = Inr NotIndexed
      \<and> (index_lookup products_url_df (index_key my_product_name domain) = Inr NotIndexed
          \<or> index_lookup products_url_df (index_key my_product_name domain) = Inr (Indexed u)
            \<and> \<not> valid_url u) \<longrightarrow>
    resolution (resolve_url search_google_serper my_product_name domain verification_df
        products_url_df)
      = (case search_google_serper my_product_name domain of
           Inl e \<Rightarrow> (None, Text ''Serper API Error'', True)
         | Inr found \<Rightarrow>
             if valid_url found then (found, Text ''URL From Serper'', True)
             else (None, Text ''Serper Not Found'', True)))
   \<and> (''URLConcurrent'' \<in> set (df_columns d) \<longrightarrow> index_lookup (Some d) key \<noteq> Inl e)"
proof -
  let ?r = "resolution (resolve_url search_google_serper my_product_name domain
              verification_df products_url_df)"
  let ?k = "index_key my_product_name domain"
  have c1: "index_lookup verification_df ?k = Inr (Indexed u) \<Longrightarrow> valid_url u \<Longrightarrow>
              ?r = (u, Text ''URL From Verification'', False)"
    unfolding resolution_table by (simp add: Let_def)
  have c2: "index_lookup verification_df ?k = Inr (Indexed u) \<Longrightarrow> \<not> valid_url u \<Longrightarrow>
              ?r = (u, Text ''Verification No URL'', False)"
    unfolding resolution_table by (simp add: Let_def)
  have c3: "index_lookup verification_df ?k = Inr NotIndexed \<Longrightarrow>
              index_lookup products_url_df ?k = Inr (Indexed u) \<Longrightarrow> valid_url u \<Longrightarrow>
              ?r = (u, Text ''URL From Cache'', False)"
    unfolding resolution_table by (simp add: Let_def)
  have c4: "index_lookup verification_df ?k = Inr NotIndexed \<Longrightarrow>
              index_lookup products_url_df ?k = Inr NotIndexed \<Longrightarrow>
              ?r = (case search_google_serper my_product_name domain of
                      Inl e \<Rightarrow> (None, Text ''Serper API Error'', True)
                    | Inr found \<Rightarrow>
                        if valid_url found then (found, Text ''URL From Serper'', True)
                        else (None, Text ''Serper Not Found'', True))"
    unfolding resolution_table by (simp add: Let_def)
  have c5: "index_lookup verification_df ?k = Inr NotIndexed \<Longrightarrow>
              index_lookup products_url_df ?k = Inr (Indexed u) \<Longrightarrow> \<not> valid_url u \<Longrightarrow>
              ?r = (case search_google_serper my_product_name domain of
                      Inl e \<Rightarrow> (None, Text ''Serper API Error'', True)
                    | Inr found \<Rightarrow>
                        if valid_url found then (found, Text ''URL From Serper'', True)
                        else (None, Text ''Serper Not Found'', True))"
    unfolding resolution_table by (simp add: Let_def)
  have c6: "''URLConcurrent'' \<in> set (df_columns d) \<Longrightarrow> index_lookup (Some d) key \<noteq> Inl e"
    by (rule index_lookup_returns)
  from c1 c2 c3 c4 c5 c6 show ?thesis by blast
qed

theorem resolve_url_first_match_wins_witness:
  "resolution (resolve_url (\<lambda>n d. Inr (Some (S ''http://s/w''))) ''Widget'' ''taklope.com''
       (Some listed_verification_df) (Some indexed_cache))
     = (Some (S ''http://v/w''), Text ''URL From Verification'', False)
   \<and> resolution (resolve_url (\<lambda>n d. Inr (Some (S ''http://s/w''))) ''Widget'' ''taklope.com''
       (Some blank_verification_df) (Some indexed_cache))
     = (Some (S '' ''), Text ''Verification No URL'', False)
   \<and> resolution (resolve_url (\<lambda>n d. Inr (Some (S ''http://s/w''))) ''Widget'' ''taklope.com''
       (Some empty_verification_df) (Some indexed_cache))
     = (Some (S ''http://t/old''), Text ''URL From Cache'', False)
   \<and> resolution (resolve_url (\<lambda>n d. Inr (Some (S ''http://s/w''))) ''Widget'' ''taklope.com''
       (Some empty_verification_df) (Some empty_products_url_df))
     = (Some (S ''http://s/w''), Text ''URL From Serper'', True)
   \<and> index_lookup (Some listed_verification_df) (index_key ''Widget'' ''taklope.com'')
     \<noteq> Inl (OtherException ''KeyError'')"
proof -
  let ?k = "index_key ''Widget'' ''taklope.com''"
  let ?s = "\<lambda>n d. Inr (Some (S ''http://s/w'')) :: exc + cell option"
  have listed: "index_lookup (Some listed_verification_df) ?k
                  = Inr (Indexed (Some (S ''http://v/w'')))"
    by code_simp
  have blank: "index_lookup (Some blank_verification_df) ?k = Inr (Indexed (Some (S '' '')))"
    by code_simp
  have none: "index_lookup (Some empty_verification_df) ?k = Inr NotIndexed"
    by code_simp
  have cached: "index_lookup (Some indexed_cache) ?k = Inr (Indexed (Some (S ''http://t/old'')))"
    by code_simp
  have uncached: "index_lookup (Some empty_products_url_df) ?k = Inr NotIndexed"
    by code_simp
  have v1: "valid_url (Some (S ''http://v/w''))"
    by code_simp
  have v2: "\<not> valid_url (Some (S '' ''))"
    by code_simp
  have v3: "valid_url (Some (S ''http://t/old''))"
    by code_simp
  have v4: "valid_url (Some (S ''http://s/w''))"
    by code_simp
  have col: "''URLConcurrent'' \<in> set (df_columns listed_verification_df)"
    by code_simp
  have r1: "resolution (resolve_url ?s ''Widget'' ''taklope.com''
              (Some listed_verification_df) (Some indexed_cache))
            = (Some (S ''http://v/w''), Text ''URL From Verification'', False)"
    using resolve_url_first_match_wins
      [where verification_df = "Some listed_verification_df"
         and products_url_df = "Some indexed_cache" and my_product_name = "''Widget''"
         and domain = "''taklope.com''" and u = "Some (S ''http://v/w'')"
         and search_google_serper = ?s] listed v1
    by blast
  have r2: "resolution (resolve_url ?s ''Widget'' ''taklope.com''
              (Some blank_verification_df) (Some indexed_cache))
            = (Some (S '' ''), Text ''Verification No URL'', False)"
    using resolve_url_first_match_wins
      [where verification_df = "Some blank_verification_df"
         and products_url_df = "Some indexed_cache" and my_product_name = "''Widget''"
         and domain = "''taklope.com''" and u = "Some (S '' '')"
         and search_google_serper = ?s] blank v2
    by blast
  have r3: "resolution (resolve_url ?s ''Widget'' ''taklope.com''
              (Some empty_verification_df) (Some indexed_cache))
            = (Some (S ''http://t/old''), Text ''URL From Cache'', False)"
    using resolve_url_first_match_wins
      [where verification_df = "Some empty_verification_df"
         and products_url_df = "Some indexed_cache" and my_product_name = "''Widget''"
         and domain = "''taklope.com''" and u = "Some (S ''http://t/old'')"
         and search_google_serper = ?s] none cached v3
    by blast
  have "resolution (resolve_url ?s ''Widget'' ''taklope.com''
              (Some empty_verification_df) (Some empty_products_url_df))
            = (case ?s ''Widget'' ''taklope.com'' of
                 Inl e \<Rightarrow> (None, Text ''Serper API Error'', True)
               | Inr found \<Rightarrow>
                   if valid_url found then (found, Text ''URL From Serper'', True)
                   else (None, Text ''Serper Not Found'', True))"
    using resolve_url_first_match_wins
      [where verification_df = "Some empty_verification_df"
         and products_url_df = "Some empty_products_url_df" and my_product_name = "''Widget''"
         and domain = "''taklope.com''" and search_google_serper = ?s] none uncached
    by blast
  then have r4: "resolution (resolve_url ?s ''Widget'' ''taklope.com''
              (Some empty_verification_df) (Some empty_products_url_df))
            = (Some (S ''http://s/w''), Text ''URL From Serper'', True)"
    using v4 by simp
  have r5: "index_lookup (Some listed_verification_df) ?k \<noteq> Inl (OtherException ''KeyError'')"
    using resolve_url_first_match_wins
      [where d = listed_verification_df and key = ?k and e = "OtherException ''KeyError''"] col
    by blast
  from r1 r2 r3 r4 r5 show ?thesis by blast
qed

section \<open>Properties of the price difference\<close>


text \<open>
  The one caller, \<open>process_single_result\<close>, passes the price of the input file, a float,
  and the price of the extractor, a float or None. On a value that is not None and on
  which \<open>float()\<close> raises ValueError or TypeError, such as the string \<open>'abc'\<close>, the
  function returns \<open>"Erreur Type"\<close>.
\<close>

lemma calculate_price_difference_non_numeric:
  "calculate_price_difference PyNonNumeric (PyNum comp_p) = Txt ''Erreur Type''"
  "calculate_price_difference (PyNum my_p) PyNonNumeric = Txt ''Erreur Type''"
  "calculate_price_difference PyNonNumeric PyNonNumeric = Txt ''Erreur Type''"
  by (simp_all add: calculate_price_difference_def)



section \<open>Properties of the progress accounting\<close>

lemma pool_step_sum:
  "completed_final_tasks (pool_step t c out) + lpv_tasks_submitted_count (pool_step t c out)
     = Suc (completed_final_tasks c + lpv_tasks_submitted_count c)"
  by (cases "(t, c, out)" rule: pool_step.cases) (simp_all add: count_completed_def)

lemma pool_fold_sum:
  "completed_final_tasks (foldl (pool_step t) c outs)
     + lpv_tasks_submitted_count (foldl (pool_step t) c outs)
   = completed_final_tasks c + lpv_tasks_submitted_count c + length outs"
  by (induction outs arbitrary: c) (simp_all add: pool_step_sum)

lemma collect_lpv_completed:
  "completed_final_tasks (collect_lpv t n c) = completed_final_tasks c + n"
  by (induction n arbitrary: c) (simp_all add: count_completed_def)

lemma process_products_counts:
  "process_products outcome competitors products = Finished t c \<Longrightarrow>
     t = length products * length competitors
     \<and> completed_final_tasks c = length (submitted_tasks products competitors)"
  using pool_fold_sum [of "length products * length competitors"
      "\<lparr>completed_final_tasks = 0, lpv_tasks_submitted_count = 0,
        progress_calls = [(0, length products * length competitors)]\<rparr>"
      "map outcome (submitted_tasks products competitors)"]
  by (auto simp: process_products_def Let_def collect_lpv_completed split: if_splits)

text \<open>
  C1, at the failing input: a catalog of one product whose price is missing, and one
  competitor. The row is skipped before submission, yet \<open>total_tasks\<close> is 1: it counts
  the rows of the catalog. The only call of the progress callback is \<open>(0, 1)\<close> and the
  completed count ends at 0.
\<close>

theorem skipped_row_counted_in_total:
  "process_products outcome [''taklope.com''] [(''Widget'', Missing)]
     = Finished 1 \<lparr>completed_final_tasks = 0, lpv_tasks_submitted_count = 0,
                    progress_calls = [(0, 1)]\<rparr>"
  by (simp add: process_products_def submitted_tasks_def product_prices_def kept_price_def)

end
